theory Spec2Isabelle
  imports Complex_Main
begin

section \<open>Data model of the particle front end (main.js)\<close>

text \<open>
  JavaScript numbers and GLSL floats are modelled as real numbers: rounding, NaN and
  infinities are outside the model. A \<^verbatim>\<open>THREE.Vector3\<close> and a GLSL \<^verbatim>\<open>vec3\<close> are
  three reals.
\<close>

datatype vec3 = Vector3 (vx: real) (vy: real) (vz: real)

text \<open>
  A call that throws keeps every mutation made before the throw, so both outcomes carry
  the state after the call.
\<close>

datatype js_error = TypeError

datatype 'a outcome = Returned 'a | Threw js_error 'a

fun state_of :: "'a outcome \<Rightarrow> 'a" where
  "state_of (Returned s) = s"
| "state_of (Threw e s) = s"

text \<open>
  The globals of main.js that the morph controller, the animation loop and the gesture
  handler read and write. \<open>startPosition\<close> and \<open>endPosition\<close> are the two instanced
  attribute arrays, one \<open>vec3\<close> per particle. \<open>timeouts\<close> holds the deadlines (in
  milliseconds) of the pending \<^verbatim>\<open>setTimeout\<close> callbacks of the swipe block, and
  \<open>shapeRequests\<close> is the trace of the calls \<^verbatim>\<open>changeParticleTemplate(keys[nextIndex])\<close>
  made by the swipe block (an effect trace, not a variable of the source). The fields
  \<^verbatim>\<open>openPalm\<close> and \<^verbatim>\<open>closedFist\<close> of \<^verbatim>\<open>gestureState\<close> are never read or written
  and are left out.
\<close>

record engine =
  currentTemplateName :: string
  targetTemplateName :: string
  morphTime :: real
  uTime :: real
  uMorphFactor :: real
  uParticleSpread :: real
  uAttractionPoint :: vec3
  startPosition :: "vec3 list"
  endPosition :: "vec3 list"
  prevX :: "real option"
  swipeDetected :: bool
  timeouts :: "real list"
  shapeRequests :: "string list"

section \<open>Particle templates\<close>

text \<open>
  A template maps the particle count, the particle index and the results of the
  \<^verbatim>\<open>Math.random()\<close> calls it makes for that particle (\<open>r 0\<close> the first, \<open>r 1\<close> the
  second, ...) to a position. The source fixes \<^verbatim>\<open>NUM_PARTICLES = 150000\<close>; the model
  takes the count as the parameter \<open>N\<close>, so that every theorem holds for that value too.
\<close>

type_synonym template = "nat \<Rightarrow> nat \<Rightarrow> (nat \<Rightarrow> real) \<Rightarrow> vec3"

definition NUM_PARTICLES :: nat where
  "NUM_PARTICLES = 150000"

definition heart :: template where
  "heart N i r =
     (let t = real i / real N * 2.0 * pi;
          x = 16 * sin t ^ 3;
          y = 13 * cos t - 5 * cos (2 * t) - 2 * cos (3 * t) - cos (4 * t)
      in Vector3 (x * 0.2) (y * 0.2) 0)"

definition spiral :: template where
  "spiral N i r =
     (let radius = real i / real N * 20;
          angle = real i * 0.1
      in Vector3 (radius * cos angle) (radius * sin angle) (real i * 0.01 - 10))"

definition ring :: template where
  "ring N i r =
     (let angle = real i / real N * 2 * pi;
          radius = 8 + (r 0 - 0.5) * 1
      in Vector3 (radius * cos angle) 0 (radius * sin angle))"

definition fireworks :: template where
  "fireworks N i r = Vector3 (r 0 * 20 - 10) (r 1 * 20 - 10) (r 2 * 20 - 10)"

text \<open>The object literal \<^verbatim>\<open>particleTemplates\<close>, in key order.\<close>

definition particleTemplates :: "(string \<times> template) list" where
  "particleTemplates =
     [(''heart'', heart), (''spiral'', spiral), (''ring'', ring), (''fireworks'', fireworks)]"

definition MORPH_DURATION :: real where
  "MORPH_DURATION = 1.0"

section \<open>Particle creation and morphing\<close>

text \<open>
  \<^verbatim>\<open>createParticles(startName, endName)\<close>: both arrays are filled from the two
  templates. Looking up a name that is not a key gives \<^verbatim>\<open>undefined\<close>, and calling it
  throws a TypeError at the first iteration. \<open>rs\<close> and \<open>re\<close> give the random draws of the
  start and of the end template for each particle.
\<close>

definition createParticles ::
  "nat \<Rightarrow> (nat \<Rightarrow> nat \<Rightarrow> real) \<Rightarrow> (nat \<Rightarrow> nat \<Rightarrow> real) \<Rightarrow> string \<Rightarrow> string
     \<Rightarrow> engine \<Rightarrow> engine outcome" where
  "createParticles N rs re startName endName s =
     (case (map_of particleTemplates startName, map_of particleTemplates endName) of
        (Some startTemplate, Some endTemplate) \<Rightarrow>
          Returned (s\<lparr>startPosition := map (\<lambda>i. startTemplate N i (rs i)) [0..<N],
                      endPosition := map (\<lambda>i. endTemplate N i (re i)) [0..<N]\<rparr>)
      | _ \<Rightarrow> if N = 0 then Returned (s\<lparr>startPosition := [], endPosition := []\<rparr>)
             else Threw TypeError s)"

text \<open>
  The loop of \<^verbatim>\<open>changeParticleTemplate\<close> over the particle indices: the start entry of
  particle \<open>i\<close> is overwritten with its end entry, and then the new target template is
  called; when the template is \<^verbatim>\<open>undefined\<close> that call throws, after the write to the
  start array.
\<close>

fun shift_and_load ::
  "template option \<Rightarrow> nat \<Rightarrow> (nat \<Rightarrow> nat \<Rightarrow> real) \<Rightarrow> nat list \<Rightarrow> vec3 list \<times> vec3 list
     \<Rightarrow> (vec3 list \<times> vec3 list) outcome" where
  "shift_and_load newTargetTemplate N rnd [] (startPositions, endPositions) =
     Returned (startPositions, endPositions)"
| "shift_and_load newTargetTemplate N rnd (i # rest) (startPositions, endPositions) =
     (let startPositions' = startPositions[i := endPositions ! i]
      in case newTargetTemplate of
           None \<Rightarrow> Threw TypeError (startPositions', endPositions)
         | Some g \<Rightarrow>
             shift_and_load newTargetTemplate N rnd rest
               (startPositions', endPositions[i := g N i (rnd i)]))"

definition changeParticleTemplate ::
  "nat \<Rightarrow> (nat \<Rightarrow> nat \<Rightarrow> real) \<Rightarrow> string \<Rightarrow> engine \<Rightarrow> engine outcome" where
  "changeParticleTemplate N rnd newTemplateName s =
     (if newTemplateName = currentTemplateName s then Returned s
      else
        let startName = currentTemplateName s;
            endName = newTemplateName;
            newTargetTemplate = map_of particleTemplates endName
        in case shift_and_load newTargetTemplate N rnd [0..<N]
                  (startPosition s, endPosition s) of
             Threw e (startPositions, endPositions) \<Rightarrow>
               Threw e (s\<lparr>startPosition := startPositions, endPosition := endPositions\<rparr>)
           | Returned (startPositions, endPositions) \<Rightarrow>
               Returned (s\<lparr>startPosition := startPositions, endPosition := endPositions,
                           currentTemplateName := startName,
                           targetTemplateName := endName,
                           morphTime := 0\<rparr>))"

text \<open>
  The morphing part of \<^verbatim>\<open>animate\<close>, for a frame whose \<^verbatim>\<open>clock.getDelta()\<close> is
  \<open>delta\<close> (seconds). Rendering, the FPS meter and the hand-tracker call do not change
  the state modelled here.
\<close>

definition animate :: "real \<Rightarrow> engine \<Rightarrow> engine" where
  "animate delta s0 =
     (let s = s0\<lparr>uTime := uTime s0 + delta\<rparr>
      in if currentTemplateName s \<noteq> targetTemplateName s then
           let morphTime' = morphTime s + delta;
               factor = min 1.0 (morphTime' / MORPH_DURATION)
           in if factor \<ge> 1.0
              then s\<lparr>morphTime := 0, uMorphFactor := 0.0,
                     currentTemplateName := targetTemplateName s\<rparr>
              else s\<lparr>morphTime := morphTime', uMorphFactor := factor\<rparr>
         else s)"

text \<open>The state of the globals when the module is loaded, and after \<^verbatim>\<open>setupThreeJS\<close>.\<close>

definition initial_globals :: engine where
  "initial_globals =
     \<lparr>currentTemplateName = ''heart'', targetTemplateName = ''heart'', morphTime = 0,
      uTime = 0.0, uMorphFactor = 0.0, uParticleSpread = 1.0,
      uAttractionPoint = Vector3 0 0 0, startPosition = [], endPosition = [],
      prevX = None, swipeDetected = False, timeouts = [], shapeRequests = []\<rparr>"

definition setupThreeJS :: "nat \<Rightarrow> engine outcome" where
  "setupThreeJS N =
     createParticles N (\<lambda>i k. 0) (\<lambda>i k. 0)
       (currentTemplateName initial_globals) (currentTemplateName initial_globals)
       initial_globals"

text \<open>GLSL \<^verbatim>\<open>mix\<close>, as the vertex shader applies it to the two attributes.\<close>

definition mix :: "vec3 \<Rightarrow> vec3 \<Rightarrow> real \<Rightarrow> vec3" where
  "mix a b t =
     Vector3 (vx a * (1 - t) + vx b * t) (vy a * (1 - t) + vy b * t)
             (vz a * (1 - t) + vz b * t)"

section \<open>Gesture handler\<close>

datatype landmark = Landmark (lx: real) (ly: real) (lz: real)

text \<open>\<^verbatim>\<open>Array.prototype.indexOf\<close>: the first position of the key, or -1.\<close>

fun indexOf :: "'a list \<Rightarrow> 'a \<Rightarrow> int" where
  "indexOf [] k = - 1"
| "indexOf (x # xs) k =
     (if x = k then 0 else (let j = indexOf xs k in if j < 0 then - 1 else j + 1))"

text \<open>
  The swipe block of \<^verbatim>\<open>onResults\<close>, for an index-fingertip abscissa \<open>x\<close> in a delivery
  handled at wall-clock time \<open>now\<close> (milliseconds). \<^verbatim>\<open>setTimeout(f, 500)\<close> registers a
  callback with deadline \<open>now + 500\<close>.
\<close>

definition swipe ::
  "nat \<Rightarrow> real \<Rightarrow> (nat \<Rightarrow> nat \<Rightarrow> real) \<Rightarrow> real \<Rightarrow> engine \<Rightarrow> engine outcome" where
  "swipe N now rnd x s =
     (case prevX s of
        None \<Rightarrow> Returned s
      | Some p \<Rightarrow>
          let deltaX = x - p;
              swipeThreshold = 0.05
          in if \<bar>deltaX\<bar> > swipeThreshold \<and> \<not> swipeDetected s then
               let keys = map fst particleTemplates;
                   currentIndex = indexOf keys (currentTemplateName s);
                   nextIndex = (currentIndex + (if deltaX > 0 then 1 else - 1)
                                  + int (length keys)) mod int (length keys);
                   requested = keys ! nat nextIndex
               in (case changeParticleTemplate N rnd requested
                          (s\<lparr>shapeRequests := shapeRequests s @ [requested]\<rparr>) of
                     Threw e s' \<Rightarrow> Threw e s'
                   | Returned s' \<Rightarrow>
                       Returned (s'\<lparr>swipeDetected := True,
                                    timeouts := timeouts s' @ [now + 500]\<rparr>))
             else Returned s)"

text \<open>
  The two classifications that \<^verbatim>\<open>onResults\<close> computes from the landmarks of a hand:
  the distance of the index fingertip (8) from the thumb tip (4), and the test the
  source calls \<^verbatim>\<open>fistDetection\<close>, which is true for the open hand.
\<close>

definition pinchDist :: "landmark list \<Rightarrow> real" where
  "pinchDist landmarks =
     (let indexTip = landmarks ! 8;
          thumbTip = landmarks ! 4
      in sqrt ((lx indexTip - lx thumbTip) ^ 2 + (ly indexTip - ly thumbTip) ^ 2))"

definition fistDetection :: "landmark list \<Rightarrow> bool" where
  "fistDetection landmarks =
     (let wrist = landmarks ! 0;
          allTips = [landmarks ! 4, landmarks ! 8, landmarks ! 12, landmarks ! 16,
                     landmarks ! 20];
          fingerTipYSum = foldl (\<lambda>sum tip. sum + ly tip) 0 allTips
      in fingerTipYSum / real (length allTips) > ly wrist + 0.1)"

text \<open>
  \<^verbatim>\<open>onResults(results)\<close>; the argument is \<^verbatim>\<open>results.multiHandLandmarks\<close>, \<open>None\<close> when
  it is missing. A hand is the list of its landmarks. Reading \<^verbatim>\<open>.x\<close> or \<^verbatim>\<open>.y\<close> of a
  landmark that the list does not have throws a TypeError; the indices read before the
  first write to the state are 0, 4, 8, 12, 16 and 20, so a hand with fewer than 21
  landmarks throws with the state as it was. In the pinch branch
  \<^verbatim>\<open>particles.material.uniforms.vColor\<close> is \<^verbatim>\<open>undefined\<close> (the uniforms object has no
  such key), so the assignment to its \<^verbatim>\<open>value\<close> throws a TypeError, again before any
  write to the state.
\<close>

definition onResults ::
  "nat \<Rightarrow> real \<Rightarrow> (nat \<Rightarrow> nat \<Rightarrow> real) \<Rightarrow> landmark list list option \<Rightarrow> engine
     \<Rightarrow> engine outcome" where
  "onResults N now rnd multiHandLandmarks s =
     (case multiHandLandmarks of
        None \<Rightarrow> Returned (s\<lparr>prevX := None\<rparr>)
      | Some [] \<Rightarrow> Returned (s\<lparr>prevX := None\<rparr>)
      | Some (landmarks # others) \<Rightarrow>
          if length landmarks \<le> 20 then Threw TypeError s
          else if pinchDist landmarks < 0.05 then Threw TypeError s
          else
            let indexTip = landmarks ! 8;
                s1 = (if \<not> fistDetection landmarks
                      then s\<lparr>uParticleSpread := max 0.1 (uParticleSpread s - 0.05)\<rparr>
                      else s\<lparr>uParticleSpread := min 5.0 (uParticleSpread s + 0.05)\<rparr>)
            in (case swipe N now rnd (lx indexTip) s1 of
                  Threw e s2 \<Rightarrow> Threw e s2
                | Returned s2 \<Rightarrow>
                    Returned (s2\<lparr>prevX := Some (lx indexTip),
                                 uAttractionPoint :=
                                   Vector3 ((lx (landmarks ! 9) - 0.5) * (- 30))
                                           ((ly (landmarks ! 9) - 0.5) * (- 30)) 0\<rparr>)))"

text \<open>
  The event loop around the handler. A timeout callback whose deadline has passed runs
  before a later landmark delivery is handled; it clears the debounce flag. An exception
  of the handler is not caught by the page, so the next event sees the state as the
  throw left it.
\<close>

definition fire_timeouts :: "real \<Rightarrow> engine \<Rightarrow> engine" where
  "fire_timeouts now s =
     (if filter (\<lambda>d. d \<le> now) (timeouts s) \<noteq> []
      then s\<lparr>swipeDetected := False, timeouts := filter (\<lambda>d. now < d) (timeouts s)\<rparr>
      else s)"

type_synonym delivery = "real \<times> (nat \<Rightarrow> nat \<Rightarrow> real) \<times> landmark list list option"

definition deliver :: "nat \<Rightarrow> delivery \<Rightarrow> engine \<Rightarrow> engine" where
  "deliver N d s =
     (case d of (now, rnd, multiHandLandmarks) \<Rightarrow>
        state_of (onResults N now rnd multiHandLandmarks (fire_timeouts now s)))"

definition deliver_all :: "nat \<Rightarrow> delivery list \<Rightarrow> engine \<Rightarrow> engine" where
  "deliver_all N ds s = fold (deliver N) ds s"

section \<open>Recording session (MediaRecorder and upload)\<close>

text \<open>
  A chunk is the list of its bytes. \<open>statusText\<close> is the text of the element
  \<^verbatim>\<open>recording-status\<close>, \<open>indicatorDisplay\<close> the display style of
  \<^verbatim>\<open>recording-indicator\<close>, \<open>mediaRecorder\<close>, \<open>videoStream\<close> and \<open>renderer\<close> tell
  whether the variable holds an object (\<^verbatim>\<open>setupCamera\<close> sets the video stream,
  \<^verbatim>\<open>setupThreeJS\<close>, which runs after it, the renderer), and \<open>uploadRequests\<close> is the
  trace of the \<^verbatim>\<open>fetch\<close> calls (file name and blob), which is not a variable of the
  source.
\<close>

record recorder =
  recordingStatus :: string
  recordedChunks :: "nat list list"
  mediaRecorder :: bool
  videoStream :: bool
  renderer :: bool
  statusText :: string
  indicatorDisplay :: string
  uploadRequests :: "(string \<times> nat list) list"

text \<open>What \<^verbatim>\<open>new MediaRecorder(...)\<close> and \<^verbatim>\<open>mediaRecorder.start()\<close> do in the browser.\<close>

datatype media_recorder_behaviour = ConstructorThrows | StartThrows | Starts

text \<open>
  \<^verbatim>\<open>startRecording\<close>. After the check of the video stream it reads
  \<^verbatim>\<open>renderer.domElement\<close>, outside the \<^verbatim>\<open>try\<close>: while the renderer has not been
  created that read throws a TypeError, before any write to the session. Only the
  construction and the start of the MediaRecorder are inside the \<^verbatim>\<open>try\<close>.
\<close>

definition startRecording ::
  "media_recorder_behaviour \<Rightarrow> recorder \<Rightarrow> recorder outcome" where
  "startRecording mr r =
     (if \<not> videoStream r
      then Returned (r\<lparr>statusText := ''Recording: Failed (No Stream)''\<rparr>)
      else if \<not> renderer r then Threw TypeError r
      else Returned
        (case mr of
           ConstructorThrows \<Rightarrow>
             r\<lparr>recordingStatus := ''error'', statusText := ''Recording: Error''\<rparr>
         | StartThrows \<Rightarrow>
             r\<lparr>mediaRecorder := True, recordingStatus := ''error'',
               statusText := ''Recording: Error''\<rparr>
         | Starts \<Rightarrow>
             r\<lparr>mediaRecorder := True, recordingStatus := ''recording'',
               statusText := ''Recording: Active'', indicatorDisplay := ''flex''\<rparr>))"

definition ondataavailable :: "nat list \<Rightarrow> recorder \<Rightarrow> recorder" where
  "ondataavailable data r =
     (if length data > 0 then r\<lparr>recordedChunks := recordedChunks r @ [data]\<rparr> else r)"

definition stopRecording :: "recorder \<Rightarrow> recorder" where
  "stopRecording r =
     (if mediaRecorder r \<and> recordingStatus r = ''recording''
      then r\<lparr>recordingStatus := ''uploading'',
             statusText := ''Recording: Stopping & Uploading...'',
             indicatorDisplay := ''none''\<rparr>
      else r)"

text \<open>
  The \<^verbatim>\<open>keydown\<close> listener, for the key \<open>key\<close>. It is installed when the module is
  loaded, so it can run before the set-up has finished.
\<close>

definition keydown ::
  "media_recorder_behaviour \<Rightarrow> string \<Rightarrow> recorder \<Rightarrow> recorder outcome" where
  "keydown mr key r =
     (if key = ''r'' \<or> key = ''R'' then
        if recordingStatus r = ''recording'' then Returned (stopRecording r)
        else if recordingStatus r = ''idle'' then startRecording mr r
        else Returned r
      else Returned r)"

text \<open>
  What the upload collaborator answers to the \<^verbatim>\<open>fetch\<close>. The promise is rejected
  (with an error of the given message), or a response arrives with its \<^verbatim>\<open>ok\<close> flag and
  a body: one that \<^verbatim>\<open>response.json()\<close> cannot parse (it throws a SyntaxError of the
  given message), the JSON value \<^verbatim>\<open>null\<close> (reading \<^verbatim>\<open>data.message\<close> throws a TypeError
  of the given message), or any other JSON value, with its \<^verbatim>\<open>message\<close> property when it
  has one.
\<close>

datatype response_body = NotJson string | JsonNull string | Json "string option"

datatype fetch_result = Rejected string | Response bool response_body

text \<open>
  The \<^verbatim>\<open>try\<close> block of \<^verbatim>\<open>uploadRecording\<close>: the message of the error it throws, or
  \<open>None\<close> when it completes.
\<close>

fun upload_try :: "fetch_result \<Rightarrow> string option" where
  "upload_try (Rejected m) = Some m"
| "upload_try (Response ok (NotJson m)) = Some m"
| "upload_try (Response ok (JsonNull m)) = Some m"
| "upload_try (Response ok (Json message)) =
     (if ok then None
      else Some (case message of
                   None \<Rightarrow> ''Unknown upload error''
                 | Some m \<Rightarrow> if m = [] then ''Unknown upload error'' else m))"

text \<open>
  \<^verbatim>\<open>uploadRecording\<close>, run by the recorder's \<^verbatim>\<open>stop\<close> event, with the ISO time of the
  clock and the answer of the collaborator. The part after the \<^verbatim>\<open>await\<close> is taken
  together with the part before it: no handler of this module that changes the session
  runs in between while the key listener sees neither \<^verbatim>\<open>idle\<close> nor \<^verbatim>\<open>recording\<close>.
\<close>

definition uploadRecording :: "string \<Rightarrow> fetch_result \<Rightarrow> recorder \<Rightarrow> recorder" where
  "uploadRecording isoTime answer r =
     (if length (recordedChunks r) = 0
      then r\<lparr>recordingStatus := ''idle'', statusText := ''Recording: Idle''\<rparr>
      else
        let videoBlob = concat (recordedChunks r);
            r1 = r\<lparr>recordedChunks := []\<rparr>;
            timestamp = map (\<lambda>c. if c = CHR '':'' \<or> c = CHR ''.'' then CHR ''-'' else c)
                          isoTime;
            filename = ''session-'' @ timestamp @ ''.webm'';
            r2 = r1\<lparr>uploadRequests := uploadRequests r1 @ [(filename, videoBlob)]\<rparr>
        in case upload_try answer of
             None \<Rightarrow>
               r2\<lparr>recordingStatus := ''idle'', statusText := ''Recording: Uploaded!''\<rparr>
           | Some message \<Rightarrow>
               r2\<lparr>recordingStatus := ''error'',
                  statusText := ''Upload Failed: '' @ take 30 message @ ''...''\<rparr>)"

section \<open>Runs, invariants and example states\<close>

text \<open>A run of animation frames with the given clock deltas.\<close>

definition run_frames :: "real list \<Rightarrow> engine \<Rightarrow> engine" where
  "run_frames deltas s = fold animate deltas s"

definition morphing :: "engine \<Rightarrow> bool" where
  "morphing s = (currentTemplateName s \<noteq> targetTemplateName s)"

text \<open>
  The debounce flag is set together with its one timeout and cleared when that timeout
  runs: the flag is up exactly while one timeout is pending.
\<close>

definition debounce_ok :: "engine \<Rightarrow> bool" where
  "debounce_ok s = (if swipeDetected s then length (timeouts s) = 1 else timeouts s = [])"

text \<open>
  The earliest time, not before \<open>t\<close>, at which the swipe block can issue a request:
  \<open>t\<close> itself when the flag is down, and not before the pending deadline when it is up.
\<close>

definition earliest_swipe :: "engine \<Rightarrow> real \<Rightarrow> real" where
  "earliest_swipe s t = (if swipeDetected s then max t (hd (timeouts s)) else t)"

text \<open>The positions the shader shows for the state: the start and end arrays mixed.\<close>

definition interpolated :: "engine \<Rightarrow> vec3 list" where
  "interpolated s =
     map (\<lambda>p. mix (fst p) (snd p) (uMorphFactor s)) (zip (startPosition s) (endPosition s))"

text \<open>
  A one-particle engine: after set-up, after the request for the spiral, and half a
  second into that morph.
\<close>

definition no_draws :: "nat \<Rightarrow> nat \<Rightarrow> real" where
  "no_draws i k = 0"

definition half_draws :: "nat \<Rightarrow> nat \<Rightarrow> real" where
  "half_draws i k = 0.5"

definition heart_to_spiral :: engine where
  "heart_to_spiral =
     state_of (changeParticleTemplate 1 no_draws ''spiral'' (state_of (setupThreeJS 1)))"

definition mid_morph :: engine where
  "mid_morph = animate 0.5 heart_to_spiral"

text \<open>
  Recording sessions: the session while the set-up is between the camera and the
  renderer; the session when the set-up has finished (the status text is whatever the
  page shows then, taken as empty); a session stopped after three chunks and an empty
  one; a session stopped without any chunk; and the first of the two after an upload that
  failed in transport.
\<close>

definition camera_before_renderer :: recorder where
  "camera_before_renderer =
     \<lparr>recordingStatus = ''idle'', recordedChunks = [], mediaRecorder = False,
      videoStream = True, renderer = False, statusText = [], indicatorDisplay = [],
      uploadRequests = []\<rparr>"

definition session_with_camera :: recorder where
  "session_with_camera =
     \<lparr>recordingStatus = ''idle'', recordedChunks = [], mediaRecorder = False,
      videoStream = True, renderer = True, statusText = [], indicatorDisplay = [],
      uploadRequests = []\<rparr>"

definition recorded_three :: recorder where
  "recorded_three =
     state_of (keydown Starts ''r''
       (ondataavailable [7]
         (ondataavailable []
           (ondataavailable [5, 6]
             (ondataavailable [1, 2, 3]
               (state_of (keydown Starts ''r'' session_with_camera)))))))"

definition recorded_nothing :: recorder where
  "recorded_nothing =
     state_of (keydown Starts ''r'' (state_of (keydown Starts ''r'' session_with_camera)))"

definition failed_upload :: recorder where
  "failed_upload =
     uploadRecording ''2024-01-01T10:20:30.456Z'' (Rejected ''Failed to fetch'') recorded_three"

text \<open>
  A hand of 21 landmarks with the index fingertip at abscissa \<open>x\<close>, the thumb tip one
  unit away from it (no pinch) and all ordinates equal (a closed hand); the one-particle
  engine after set-up; and a stream of deliveries over two seconds whose index fingertip
  jumps by 0.6 from each delivery to the next.
\<close>

definition hand_at :: "real \<Rightarrow> landmark list" where
  "hand_at x =
     replicate 4 (Landmark x 0 0) @ [Landmark (x + 1) 0 0] @ replicate 16 (Landmark x 0 0)"

definition set_up_one :: engine where
  "set_up_one = state_of (setupThreeJS 1)"

definition swipe_stream :: "delivery list" where
  "swipe_stream =
     [(0, no_draws, Some [hand_at 0.2]), (400, no_draws, Some [hand_at 0.8]),
      (800, no_draws, Some [hand_at 0.2]), (1200, no_draws, Some [hand_at 0.8]),
      (1600, no_draws, Some [hand_at 0.2]), (1999, no_draws, Some [hand_at 0.8])]"

section \<open>The morph loop and the example states\<close>

lemma fold_update_length: "length (fold (\<lambda>i a. a[i := f i]) js xs) = length xs"
  by (induction js arbitrary: xs) auto

lemma fold_update_nth:
  "j < length xs \<Longrightarrow> fold (\<lambda>i a. a[i := f i]) js xs ! j = (if j \<in> set js then f j else xs ! j)"
  by (induction js arbitrary: xs) (auto simp: fold_update_length nth_list_update)

lemma fold_update_all:
  assumes "length xs = N"
  shows "fold (\<lambda>i a. a[i := f i]) [0..<N] xs = map f [0..<N]"
  using assms by (intro nth_equalityI) (auto simp: fold_update_length fold_update_nth)

lemma shift_and_load_known:
  "distinct js \<Longrightarrow>
   shift_and_load (Some g) N rnd js (st, en) =
     Returned (fold (\<lambda>i a. a[i := en ! i]) js st, fold (\<lambda>i a. a[i := g N i (rnd i)]) js en)"
proof (induction js arbitrary: st en)
  case Nil
  then show ?case by simp
next
  case (Cons i js)
  have "fold (\<lambda>j a. a[j := en[i := g N i (rnd i)] ! j]) js (st[i := en ! i])
        = fold (\<lambda>j a. a[j := en ! j]) js (st[i := en ! i])"
  proof (intro fold_cong refl)
    fix j assume "j \<in> set js"
    with Cons.prems have "i \<noteq> j" by auto
    then show "(\<lambda>a. a[j := en[i := g N i (rnd i)] ! j]) = (\<lambda>a. a[j := en ! j])"
      by simp
  qed
  with Cons show ?case by simp
qed

lemma shift_and_load_all:
  assumes "length st = N" "length en = N"
  shows "shift_and_load (Some g) N rnd [0..<N] (st, en) =
           Returned (en, map (\<lambda>i. g N i (rnd i)) [0..<N])"
proof -
  have "fold (\<lambda>i a. a[i := en ! i]) [0..<N] st = map (\<lambda>i. en ! i) [0..<N]"
    using assms by (simp add: fold_update_all)
  also have "\<dots> = en"
    using assms(2) map_nth [of en] by simp
  finally show ?thesis
    using assms by (simp add: shift_and_load_known fold_update_all)
qed

lemma shift_and_load_unknown:
  "0 < N \<Longrightarrow> shift_and_load None N rnd [0..<N] (st, en) = Threw TypeError (st[0 := en ! 0], en)"
  by (simp add: upt_conv_Cons)

lemma setup_one: "setupThreeJS 1 = Returned (initial_globals\<lparr>startPosition := [Vector3 0 1 0], endPosition := [Vector3 0 1 0]\<rparr>)"
  by (simp add: setupThreeJS_def createParticles_def particleTemplates_def initial_globals_def heart_def)

lemma heart_to_spiral_state: "heart_to_spiral = initial_globals\<lparr>startPosition := [Vector3 0 1 0], endPosition := [Vector3 0 0 (-10)], targetTemplateName := ''spiral''\<rparr>"
  using setup_one by (simp add: heart_to_spiral_def changeParticleTemplate_def particleTemplates_def initial_globals_def spiral_def)

lemma mid_morph_state: "mid_morph = initial_globals\<lparr>startPosition := [Vector3 0 1 0], endPosition := [Vector3 0 0 (-10)], targetTemplateName := ''spiral'', uTime := 0.5, morphTime := 0.5, uMorphFactor := 0.5\<rparr>"
  by (simp add: mid_morph_def heart_to_spiral_state animate_def initial_globals_def MORPH_DURATION_def Let_def)

lemma change_known:
  assumes "map_of particleTemplates newTemplateName = Some g"
      and "length (startPosition s) = N" and "length (endPosition s) = N"
      and "newTemplateName \<noteq> currentTemplateName s"
  shows "changeParticleTemplate N rnd newTemplateName s =
            Returned (s\<lparr>startPosition := endPosition s,
                        endPosition := map (\<lambda>i. g N i (rnd i)) [0..<N],
                        targetTemplateName := newTemplateName, morphTime := 0\<rparr>)"
  using assms by (simp add: changeParticleTemplate_def shift_and_load_all)

section \<open>Shape-change requests\<close>

text \<open>
  Claim C1, as the code has it. A request for a known shape other than
  \<open>currentTemplateName\<close>, whether or not a morph is in progress, starts a fresh morph:
  the start positions become the previous end positions (where the interrupted morph was
  heading, not the positions interpolated at the instant of the request), the end
  positions are sampled from the requested template, the requested shape becomes the
  target and \<open>morphTime\<close> is reset to 0. A request for \<open>currentTemplateName\<close>, which
  during a morph is the shape the morph started from, returns at once and changes
  nothing.
\<close>

theorem retrigger_starts_from_end_positions:
  assumes "map_of particleTemplates newTemplateName = Some g"
      and "length (startPosition s) = N" and "length (endPosition s) = N"
  shows "(newTemplateName \<noteq> currentTemplateName s \<longrightarrow>
            changeParticleTemplate N rnd newTemplateName s =
              Returned (s\<lparr>startPosition := endPosition s,
                          endPosition := map (\<lambda>i. g N i (rnd i)) [0..<N],
                          targetTemplateName := newTemplateName, morphTime := 0\<rparr>))
       \<and> (newTemplateName = currentTemplateName s \<longrightarrow>
            changeParticleTemplate N rnd newTemplateName s = Returned s)"
  using assms by (simp add: change_known) (simp add: changeParticleTemplate_def)

text \<open>
  The theorem at the one-particle engine half a second into the morph from the heart to
  the spiral, for a request of the ring.
\<close>

theorem retrigger_starts_from_end_positions_witness:
  "map_of particleTemplates ''ring'' = Some ring
   \<and> length (startPosition mid_morph) = 1 \<and> length (endPosition mid_morph) = 1
   \<and> ''ring'' \<noteq> currentTemplateName mid_morph
   \<and> changeParticleTemplate 1 half_draws ''ring'' mid_morph =
       Returned (mid_morph\<lparr>startPosition := [Vector3 0 0 (- 10)],
                   endPosition := [Vector3 8 0 0],
                   targetTemplateName := ''ring'', morphTime := 0\<rparr>)"
proof -
  have k: "map_of particleTemplates ''ring'' = Some ring"
    by (simp add: particleTemplates_def)
  have l: "length (startPosition mid_morph) = 1" "length (endPosition mid_morph) = 1"
    by (simp_all add: mid_morph_state)
  have c: "''ring'' \<noteq> currentTemplateName mid_morph"
    by (simp add: mid_morph_state initial_globals_def)
  have e: "endPosition mid_morph = [Vector3 0 0 (- 10)]"
    by (simp add: mid_morph_state)
  from retrigger_starts_from_end_positions [OF k l, of half_draws] c e show ?thesis
    using k l by (simp add: ring_def half_draws_def)
qed

text \<open>
  Claim C1 as stated fails in that state: the request for the ring makes the start
  positions the spiral's, not the interpolated positions, and the request for the heart
  (the shape the morph started from) does not reset \<open>morphTime\<close>.
\<close>

theorem retrigger_not_interpolated_counterexample:
  "morphing mid_morph
   \<and> startPosition (state_of (changeParticleTemplate 1 half_draws ''ring'' mid_morph))
       \<noteq> interpolated mid_morph
   \<and> morphTime (state_of (changeParticleTemplate 1 half_draws ''heart'' mid_morph)) \<noteq> 0"
  by (simp add: mid_morph_state morphing_def interpolated_def mix_def initial_globals_def
        changeParticleTemplate_def particleTemplates_def ring_def half_draws_def)

text \<open>
  Claim C6, as the code has it. A request for a name that is not a key of
  \<open>particleTemplates\<close> is not validated: with at least one particle,
  \<open>changeParticleTemplate\<close> throws a TypeError at the first call of the missing
  template, with no fallback shape. The name never becomes the target: the two template
  names, \<open>morphTime\<close> and the end positions are as before. The start positions are as
  before except for particle 0, whose start position has been overwritten with its end
  position before the throw.
\<close>

theorem unknown_shape_throws_after_first_write:
  assumes "map_of particleTemplates newTemplateName = None"
      and "map_of particleTemplates (currentTemplateName s) \<noteq> None"
      and "0 < N"
      and "length (startPosition s) = N" and "length (endPosition s) = N"
  shows "changeParticleTemplate N rnd newTemplateName s =
           Threw TypeError (s\<lparr>startPosition := (startPosition s)[0 := endPosition s ! 0]\<rparr>)"
proof -
  from assms(1,2) have "newTemplateName \<noteq> currentTemplateName s" by auto
  with assms(1,3) show ?thesis
    by (simp add: changeParticleTemplate_def shift_and_load_unknown)
qed

text \<open>The theorem at the one-particle engine morphing to the spiral, for the name cube.\<close>

theorem unknown_shape_throws_after_first_write_witness:
  "map_of particleTemplates ''cube'' = None
   \<and> map_of particleTemplates (currentTemplateName heart_to_spiral) \<noteq> None
   \<and> (0::nat) < 1
   \<and> length (startPosition heart_to_spiral) = 1 \<and> length (endPosition heart_to_spiral) = 1
   \<and> changeParticleTemplate 1 no_draws ''cube'' heart_to_spiral =
       Threw TypeError (heart_to_spiral\<lparr>startPosition := [Vector3 0 0 (- 10)]\<rparr>)"
proof -
  have a: "map_of particleTemplates ''cube'' = None"
    by (simp add: particleTemplates_def)
  have b: "map_of particleTemplates (currentTemplateName heart_to_spiral) \<noteq> None"
    by (simp add: heart_to_spiral_state initial_globals_def particleTemplates_def)
  have c: "(0::nat) < 1" by simp
  have l: "length (startPosition heart_to_spiral) = 1" "length (endPosition heart_to_spiral) = 1"
    by (simp_all add: heart_to_spiral_state)
  from unknown_shape_throws_after_first_write [OF a b c l, of no_draws] show ?thesis
    using a b l by (simp add: heart_to_spiral_state)
qed

text \<open>
  Claim C6 as stated fails in that state: the rejected request has changed the start
  positions.
\<close>

theorem unknown_shape_changes_start_counterexample:
  "map_of particleTemplates ''cube'' = None
   \<and> startPosition (state_of (changeParticleTemplate 1 no_draws ''cube'' heart_to_spiral))
       \<noteq> startPosition heart_to_spiral"
  by (simp add: heart_to_spiral_state initial_globals_def changeParticleTemplate_def particleTemplates_def Let_def)

section \<open>The morph factor over a run of frames\<close>

lemma animate_inv:
  assumes "0 \<le> d" "0 \<le> morphTime s" "0 \<le> uMorphFactor s" "uMorphFactor s \<le> 1"
  shows "0 \<le> morphTime (animate d s) \<and> 0 \<le> uMorphFactor (animate d s)
         \<and> uMorphFactor (animate d s) \<le> 1"
  using assms by (simp add: animate_def Let_def MORPH_DURATION_def)

lemma run_frames_inv:
  assumes "\<forall>d\<in>set ds. 0 \<le> d" "0 \<le> morphTime s" "0 \<le> uMorphFactor s" "uMorphFactor s \<le> 1"
  shows "0 \<le> morphTime (run_frames ds s) \<and> 0 \<le> uMorphFactor (run_frames ds s)
         \<and> uMorphFactor (run_frames ds s) \<le> 1"
  using assms
proof (induction ds arbitrary: s)
  case Nil
  then show ?case by (simp add: run_frames_def)
next
  case (Cons d ds)
  from Cons.prems have "0 \<le> d" by simp
  from animate_inv [OF this Cons.prems(2-4)] Cons.IH [of "animate d s"] Cons.prems(1)
  show ?case by (simp add: run_frames_def)
qed

lemma animate_morphing_iff:
  "morphing (animate d s) \<longleftrightarrow> morphing s \<and> morphTime s + d < 1"
  by (auto simp: animate_def Let_def MORPH_DURATION_def morphing_def)

lemma animate_still_morphing:
  assumes "morphing (animate d s)"
  shows "morphTime (animate d s) = morphTime s + d" "uMorphFactor (animate d s) = morphTime s + d"
  using assms by (auto simp: animate_def Let_def MORPH_DURATION_def morphing_def split: if_splits)

lemma run_frames_snoc: "run_frames (ds @ [d]) s = animate d (run_frames ds s)"
  by (simp add: run_frames_def)

lemma run_frames_append: "run_frames (ds @ es) s = run_frames es (run_frames ds s)"
  by (simp add: run_frames_def)

lemma run_frames_morphing:
  "morphing (run_frames ds s) \<Longrightarrow>
     morphing s \<and> morphTime (run_frames ds s) = morphTime s + sum_list ds
     \<and> (ds \<noteq> [] \<longrightarrow> uMorphFactor (run_frames ds s) = morphTime s + sum_list ds)"
proof (induction ds rule: rev_induct)
  case Nil
  then show ?case by (simp add: run_frames_def)
next
  case (snoc d ds)
  from snoc.prems have m: "morphing (animate d (run_frames ds s))"
    by (simp add: run_frames_snoc)
  then have "morphing (run_frames ds s)" by (simp add: animate_morphing_iff)
  with snoc.IH animate_still_morphing [OF m] show ?case
    by (simp add: run_frames_snoc)
qed

lemma run_frames_monotone:
  assumes nonneg: "\<forall>d\<in>set ds. 0 \<le> d"
      and ij: "1 \<le> i" "i \<le> j" "j \<le> length ds"
      and m: "morphing (run_frames (take j ds) s)"
  shows "uMorphFactor (run_frames (take i ds) s) \<le> uMorphFactor (run_frames (take j ds) s)"
proof -
  define es where "es = drop i (take j ds)"
  have split: "take j ds = take i ds @ es"
  proof -
    have "take i (take j ds) = take i ds" using ij(2) by (simp add: min_def)
    then show ?thesis unfolding es_def by (metis append_take_drop_id)
  qed
  have ne: "take i ds \<noteq> []" "take j ds \<noteq> []"
    using ij by auto
  have es_nonneg: "0 \<le> sum_list es"
  proof (rule sum_list_nonneg)
    fix x assume "x \<in> set es"
    then have "x \<in> set ds" unfolding es_def by (meson in_set_dropD in_set_takeD)
    with nonneg show "0 \<le> x" by simp
  qed
  from run_frames_morphing [OF m] ne
  have j: "uMorphFactor (run_frames (take j ds) s) = morphTime s + sum_list (take j ds)"
    by simp
  from m have "morphing (run_frames es (run_frames (take i ds) s))"
    by (simp add: split run_frames_append)
  from run_frames_morphing [OF this] have "morphing (run_frames (take i ds) s)"
    by simp
  from run_frames_morphing [OF this] ne
  have i: "uMorphFactor (run_frames (take i ds) s) = morphTime s + sum_list (take i ds)"
    by simp
  from i j es_nonneg show ?thesis by (simp add: split)
qed

lemma change_morph_fields:
  "uMorphFactor (state_of (changeParticleTemplate N rnd name s)) = uMorphFactor s
   \<and> (morphTime (state_of (changeParticleTemplate N rnd name s)) = 0
      \<or> morphTime (state_of (changeParticleTemplate N rnd name s)) = morphTime s)"
  by (simp add: changeParticleTemplate_def Let_def split: outcome.split prod.split)

lemma NUM_PARTICLES_positive: "0 < NUM_PARTICLES"
  by (simp add: NUM_PARTICLES_def)

text \<open>
  Claim C2. For clock deltas that are not negative, from a state whose \<open>morphTime\<close> is
  not negative and whose factor is in [0,1]: after every frame of a run the factor is in
  [0,1]; among the frames of the run after which the engine is still morphing (the
  frames of one episode) the factor does not decrease; in a frame where the factor
  reaches 1 the current template becomes the target and the factor and \<open>morphTime\<close>
  are reset to 0; and in a frame where it does not, the engine keeps morphing with the
  factor as computed. A shape-change request between two frames keeps the two
  conditions on the state: it leaves the factor alone and leaves \<open>morphTime\<close> or
  sets it to 0.
\<close>

theorem morph_factor_range_monotone_reset:
  assumes "\<forall>d\<in>set deltas. 0 \<le> d"
      and "0 \<le> morphTime s" and "0 \<le> uMorphFactor s" and "uMorphFactor s \<le> 1"
  shows "(\<forall>k\<le>length deltas.
            0 \<le> uMorphFactor (run_frames (take k deltas) s)
            \<and> uMorphFactor (run_frames (take k deltas) s) \<le> 1)
       \<and> (\<forall>i j. 1 \<le> i \<and> i \<le> j \<and> j \<le> length deltas
              \<and> morphing (run_frames (take j deltas) s) \<longrightarrow>
            uMorphFactor (run_frames (take i deltas) s)
              \<le> uMorphFactor (run_frames (take j deltas) s))
       \<and> (\<forall>d. morphing s \<and> min 1.0 ((morphTime s + d) / MORPH_DURATION) \<ge> 1.0 \<longrightarrow>
            currentTemplateName (animate d s) = targetTemplateName s
            \<and> targetTemplateName (animate d s) = targetTemplateName s
            \<and> uMorphFactor (animate d s) = 0 \<and> morphTime (animate d s) = 0)
       \<and> (\<forall>d. morphing s \<and> min 1.0 ((morphTime s + d) / MORPH_DURATION) < 1.0 \<longrightarrow>
            morphing (animate d s)
            \<and> uMorphFactor (animate d s) = min 1.0 ((morphTime s + d) / MORPH_DURATION))
       \<and> (\<forall>N rnd name.
            0 \<le> morphTime (state_of (changeParticleTemplate N rnd name s))
            \<and> uMorphFactor (state_of (changeParticleTemplate N rnd name s)) = uMorphFactor s)"
proof (intro conjI allI impI)
  fix k assume "k \<le> length deltas"
  have "\<forall>d\<in>set (take k deltas). 0 \<le> d"
    using assms(1) by (meson in_set_takeD)
  from run_frames_inv [OF this assms(2-4)]
  show "0 \<le> uMorphFactor (run_frames (take k deltas) s)"
    and "uMorphFactor (run_frames (take k deltas) s) \<le> 1" by simp_all
next
  fix i j
  assume "1 \<le> i \<and> i \<le> j \<and> j \<le> length deltas \<and> morphing (run_frames (take j deltas) s)"
  then show "uMorphFactor (run_frames (take i deltas) s) \<le> uMorphFactor (run_frames (take j deltas) s)"
    using run_frames_monotone [OF assms(1)] by blast
next
  fix N rnd name
  from change_morph_fields [of N rnd name s] assms(2)
  show "0 \<le> morphTime (state_of (changeParticleTemplate N rnd name s))"
    and "uMorphFactor (state_of (changeParticleTemplate N rnd name s)) = uMorphFactor s"
    by auto
qed (auto simp: animate_def Let_def MORPH_DURATION_def morphing_def)

text \<open>
  The theorem at the one-particle engine just after the request for the spiral, for the
  deltas 0.25, 0.5, 0.5 and, for the reset, a delta of 1.
\<close>

theorem morph_factor_range_monotone_reset_witness:
  "(0::real) \<le> 0.25 \<and> (0::real) \<le> 0.5
   \<and> 0 \<le> morphTime heart_to_spiral \<and> 0 \<le> uMorphFactor heart_to_spiral
   \<and> uMorphFactor heart_to_spiral \<le> 1
   \<and> morphing (run_frames (take 2 [0.25, 0.5, 0.5]) heart_to_spiral)
   \<and> uMorphFactor (run_frames (take 1 [0.25, 0.5, 0.5]) heart_to_spiral) = 0.25
   \<and> uMorphFactor (run_frames (take 2 [0.25, 0.5, 0.5]) heart_to_spiral) = 0.75
   \<and> uMorphFactor (run_frames (take 1 [0.25, 0.5, 0.5]) heart_to_spiral)
       \<le> uMorphFactor (run_frames (take 2 [0.25, 0.5, 0.5]) heart_to_spiral)
   \<and> uMorphFactor (run_frames (take 3 [0.25, 0.5, 0.5]) heart_to_spiral) = 0
   \<and> morphing heart_to_spiral
   \<and> currentTemplateName (animate 1 heart_to_spiral) = ''spiral''
   \<and> uMorphFactor (animate 1 heart_to_spiral) = 0
   \<and> morphTime (animate 1 heart_to_spiral) = 0"
proof -
  have a: "\<forall>d\<in>set [0.25, 0.5, 0.5 :: real]. 0 \<le> d" by simp
  have b: "0 \<le> morphTime heart_to_spiral" "0 \<le> uMorphFactor heart_to_spiral"
    "uMorphFactor heart_to_spiral \<le> 1"
    by (simp_all add: heart_to_spiral_state initial_globals_def)
  have m: "morphing heart_to_spiral"
    by (simp add: heart_to_spiral_state initial_globals_def morphing_def)
  have r1: "uMorphFactor (run_frames (take 1 [0.25, 0.5, 0.5]) heart_to_spiral) = 0.25"
    by (simp add: run_frames_def animate_def Let_def MORPH_DURATION_def heart_to_spiral_state initial_globals_def)
  have r2: "uMorphFactor (run_frames (take 2 [0.25, 0.5, 0.5]) heart_to_spiral) = 0.75"
    by (simp add: run_frames_def animate_def Let_def MORPH_DURATION_def heart_to_spiral_state initial_globals_def
          numeral_2_eq_2)
  have r3: "uMorphFactor (run_frames (take 3 [0.25, 0.5, 0.5]) heart_to_spiral) = 0"
    by (simp add: run_frames_def animate_def Let_def MORPH_DURATION_def heart_to_spiral_state initial_globals_def)
  have m2: "morphing (run_frames (take 2 [0.25, 0.5, 0.5]) heart_to_spiral)"
    by (simp add: morphing_def run_frames_def animate_def Let_def MORPH_DURATION_def heart_to_spiral_state
          initial_globals_def numeral_2_eq_2)
  have one: "min 1.0 ((morphTime heart_to_spiral + 1) / MORPH_DURATION) \<ge> (1.0::real)"
    by (simp add: heart_to_spiral_state initial_globals_def MORPH_DURATION_def)
  note inst = morph_factor_range_monotone_reset [OF a b]
  from inst have mono:
    "uMorphFactor (run_frames (take 1 [0.25, 0.5, 0.5]) heart_to_spiral)
       \<le> uMorphFactor (run_frames (take 2 [0.25, 0.5, 0.5]) heart_to_spiral)"
    using m2 by (elim conjE allE [of _ "1::nat"] allE [of _ "2::nat"]) simp
  from inst m one have reset:
    "currentTemplateName (animate 1 heart_to_spiral) = targetTemplateName heart_to_spiral
     \<and> uMorphFactor (animate 1 heart_to_spiral) = 0 \<and> morphTime (animate 1 heart_to_spiral) = 0"
    by blast
  have t: "targetTemplateName heart_to_spiral = ''spiral''"
    by (simp add: heart_to_spiral_state)
  from b m m2 mono reset r1 r2 r3 t show ?thesis
    by (intro conjI) simp_all
qed

section \<open>The gesture handler\<close>

lemma shift_and_load_returns:
  "\<exists>p. shift_and_load (Some g) N rnd js b = Returned p"
proof (induction js arbitrary: b)
  case Nil
  then show ?case by (cases b) simp
next
  case (Cons i js)
  then show ?case by (cases b) simp
qed

lemma change_known_fields:
  assumes "map_of particleTemplates name = Some g"
  shows "\<exists>s'. changeParticleTemplate N rnd name s = Returned s'
          \<and> uParticleSpread s' = uParticleSpread s \<and> swipeDetected s' = swipeDetected s
          \<and> timeouts s' = timeouts s \<and> shapeRequests s' = shapeRequests s"
proof (cases "name = currentTemplateName s")
  case True
  then show ?thesis by (simp add: changeParticleTemplate_def)
next
  case False
  obtain st en where "shift_and_load (Some g) N rnd [0..<N] (startPosition s, endPosition s)
      = Returned (st, en)"
    using shift_and_load_returns [of g N rnd "[0..<N]" "(startPosition s, endPosition s)"]
    by (metis surj_pair)
  with False assms show ?thesis by (simp add: changeParticleTemplate_def)
qed

lemma next_key_known:
  assumes "0 \<le> k" "k < 4"
  shows "\<exists>g. map_of particleTemplates (map fst particleTemplates ! nat k) = Some g"
proof -
  from assms have "nat k = 0 \<or> nat k = 1 \<or> nat k = 2 \<or> nat k = 3" by linarith
  then show ?thesis by (auto simp: particleTemplates_def)
qed

lemma swipe_cases:
  "\<exists>s'. swipe N now rnd x s = Returned s' \<and> uParticleSpread s' = uParticleSpread s
     \<and> (s' = s
        \<or> \<not> swipeDetected s \<and> swipeDetected s' \<and> timeouts s' = timeouts s @ [now + 500]
          \<and> (\<exists>name. shapeRequests s' = shapeRequests s @ [name]))"
proof (cases "prevX s")
  case None
  then show ?thesis by (simp add: swipe_def)
next
  case (Some p)
  show ?thesis
  proof (cases "\<bar>x - p\<bar> > 0.05 \<and> \<not> swipeDetected s")
    case False
    with Some show ?thesis by (auto simp: swipe_def Let_def)
  next
    case True
    define k where "k = (indexOf (map fst particleTemplates) (currentTemplateName s)
                          + (if x - p > 0 then 1 else - 1)
                          + int (length (map fst particleTemplates)))
                         mod int (length (map fst particleTemplates))"
    define name where "name = map fst particleTemplates ! nat k"
    have "0 \<le> k" "k < 4" by (simp_all add: k_def particleTemplates_def)
    from next_key_known [OF this] obtain g where "map_of particleTemplates name = Some g"
      unfolding name_def by blast
    from change_known_fields [OF this, of N rnd "s\<lparr>shapeRequests := shapeRequests s @ [name]\<rparr>"]
    obtain s' where s': "changeParticleTemplate N rnd name (s\<lparr>shapeRequests := shapeRequests s @ [name]\<rparr>)
          = Returned s'" "uParticleSpread s' = uParticleSpread s" "swipeDetected s' = swipeDetected s"
          "timeouts s' = timeouts s" "shapeRequests s' = shapeRequests s @ [name]"
      by auto
    have eq: "swipe N now rnd x s =
        (case changeParticleTemplate N rnd name (s\<lparr>shapeRequests := shapeRequests s @ [name]\<rparr>) of
           Threw e s' \<Rightarrow> Threw e s'
         | Returned s' \<Rightarrow>
             Returned (s'\<lparr>swipeDetected := True, timeouts := timeouts s' @ [now + 500]\<rparr>))"
      using Some True
      by (simp only: swipe_def Let_def name_def k_def option.case if_True simp_thms)
    from s' True show ?thesis
      by (simp add: eq)
  qed
qed

lemma onResults_hand:
  assumes "20 < length hand" "\<not> pinchDist hand < 0.05"
  shows "\<exists>s2. swipe N now rnd (lx (hand ! 8))
                 (s\<lparr>uParticleSpread :=
                      (if fistDetection hand then min 5.0 (uParticleSpread s + 0.05)
                       else max 0.1 (uParticleSpread s - 0.05))\<rparr>) = Returned s2
            \<and> onResults N now rnd (Some (hand # others)) s =
                Returned (s2\<lparr>prevX := Some (lx (hand ! 8)),
                            uAttractionPoint :=
                              Vector3 ((lx (hand ! 9) - 0.5) * (- 30))
                                      ((ly (hand ! 9) - 0.5) * (- 30)) 0\<rparr>)"
proof -
  define s1 where "s1 = s\<lparr>uParticleSpread :=
                      (if fistDetection hand then min 5.0 (uParticleSpread s + 0.05)
                       else max 0.1 (uParticleSpread s - 0.05))\<rparr>"
  from swipe_cases [of N now rnd "lx (hand ! 8)" s1]
  obtain s2 where s2: "swipe N now rnd (lx (hand ! 8)) s1 = Returned s2" by blast
  have "onResults N now rnd (Some (hand # others)) s =
          (case swipe N now rnd (lx (hand ! 8)) s1 of
             Threw e s2 \<Rightarrow> Threw e s2
           | Returned s2 \<Rightarrow>
               Returned (s2\<lparr>prevX := Some (lx (hand ! 8)),
                           uAttractionPoint :=
                             Vector3 ((lx (hand ! 9) - 0.5) * (- 30))
                                     ((ly (hand ! 9) - 0.5) * (- 30)) 0\<rparr>))"
    using assms by (simp add: onResults_def Let_def s1_def)
  with s2 show ?thesis unfolding s1_def by simp
qed

lemma onResults_no_update:
  assumes "res = None \<or> res = Some [] \<or> (\<exists>hand others. res = Some (hand # others)
             \<and> (length hand \<le> 20 \<or> pinchDist hand < 0.05))"
  shows "state_of (onResults N now rnd res s) = s \<or> state_of (onResults N now rnd res s) = s\<lparr>prevX := None\<rparr>"
  using assms by (auto simp: onResults_def)

lemma results_cases:
  "res = None \<or> res = Some [] \<or> (\<exists>hand others. res = Some (hand # others)
             \<and> (length hand \<le> 20 \<or> pinchDist hand < 0.05))
   \<or> (\<exists>hand others. res = Some (hand # others) \<and> 20 < length hand \<and> \<not> pinchDist hand < 0.05)"
proof (cases res)
  case None
  then show ?thesis by simp
next
  case (Some hs)
  then show ?thesis by (cases hs) auto
qed

lemma onResults_spread:
  assumes "0.1 \<le> uParticleSpread s" "uParticleSpread s \<le> 5.0"
  shows "0.1 \<le> uParticleSpread (state_of (onResults N now rnd res s))
       \<and> uParticleSpread (state_of (onResults N now rnd res s)) \<le> 5.0"
proof -
  consider (quiet) "res = None \<or> res = Some [] \<or> (\<exists>hand others. res = Some (hand # others)
             \<and> (length hand \<le> 20 \<or> pinchDist hand < 0.05))"
    | (hand) hand others where "res = Some (hand # others)" "20 < length hand"
        "\<not> pinchDist hand < 0.05"
    using results_cases [of res] by blast
  then show ?thesis
  proof cases
    case quiet
    from onResults_no_update [OF this, of N now rnd s] assms show ?thesis by auto
  next
    case hand
    from onResults_hand [OF hand(2,3), of N now rnd s others]
    obtain s2 where s2: "swipe N now rnd (lx (hand ! 8))
                 (s\<lparr>uParticleSpread :=
                      (if fistDetection hand then min 5.0 (uParticleSpread s + 0.05)
                       else max 0.1 (uParticleSpread s - 0.05))\<rparr>) = Returned s2"
      and r: "onResults N now rnd (Some (hand # others)) s =
                Returned (s2\<lparr>prevX := Some (lx (hand ! 8)),
                            uAttractionPoint :=
                              Vector3 ((lx (hand ! 9) - 0.5) * (- 30))
                                      ((ly (hand ! 9) - 0.5) * (- 30)) 0\<rparr>)"
      by blast
    from swipe_cases [of N now rnd "lx (hand ! 8)" "s\<lparr>uParticleSpread :=
                      (if fistDetection hand then min 5.0 (uParticleSpread s + 0.05)
                       else max 0.1 (uParticleSpread s - 0.05))\<rparr>"] s2
    have "uParticleSpread s2 = (if fistDetection hand then min 5.0 (uParticleSpread s + 0.05)
                       else max 0.1 (uParticleSpread s - 0.05))"
      by auto
    with assms show ?thesis by (auto simp: hand(1) r min_def max_def)
  qed
qed

lemma onResults_debounce:
  "swipeDetected (state_of (onResults N now rnd res s)) = swipeDetected s
     \<and> timeouts (state_of (onResults N now rnd res s)) = timeouts s
     \<and> shapeRequests (state_of (onResults N now rnd res s)) = shapeRequests s
   \<or> \<not> swipeDetected s \<and> swipeDetected (state_of (onResults N now rnd res s))
     \<and> timeouts (state_of (onResults N now rnd res s)) = timeouts s @ [now + 500]
     \<and> (\<exists>name. shapeRequests (state_of (onResults N now rnd res s)) = shapeRequests s @ [name])"
proof -
  consider (quiet) "res = None \<or> res = Some [] \<or> (\<exists>hand others. res = Some (hand # others)
             \<and> (length hand \<le> 20 \<or> pinchDist hand < 0.05))"
    | (hand) hand others where "res = Some (hand # others)" "20 < length hand"
        "\<not> pinchDist hand < 0.05"
    using results_cases [of res] by blast
  then show ?thesis
  proof cases
    case quiet
    from onResults_no_update [OF this, of N now rnd s] show ?thesis by auto
  next
    case hand
    define s1 where "s1 = s\<lparr>uParticleSpread :=
                      (if fistDetection hand then min 5.0 (uParticleSpread s + 0.05)
                       else max 0.1 (uParticleSpread s - 0.05))\<rparr>"
    from onResults_hand [OF hand(2,3), of N now rnd s others]
    obtain s2 where s2: "swipe N now rnd (lx (hand ! 8)) s1 = Returned s2"
      and r: "onResults N now rnd (Some (hand # others)) s =
                Returned (s2\<lparr>prevX := Some (lx (hand ! 8)),
                            uAttractionPoint :=
                              Vector3 ((lx (hand ! 9) - 0.5) * (- 30))
                                      ((ly (hand ! 9) - 0.5) * (- 30)) 0\<rparr>)"
      unfolding s1_def by blast
    from swipe_cases [of N now rnd "lx (hand ! 8)" s1] s2
    have "s2 = s1 \<or> \<not> swipeDetected s1 \<and> swipeDetected s2
            \<and> timeouts s2 = timeouts s1 @ [now + 500]
            \<and> (\<exists>name. shapeRequests s2 = shapeRequests s1 @ [name])"
      by auto
    then show ?thesis
      by (auto simp: hand(1) r s1_def)
  qed
qed

lemma fire_timeouts_effect:
  assumes "debounce_ok s"
  shows "shapeRequests (fire_timeouts now s) = shapeRequests s
       \<and> uParticleSpread (fire_timeouts now s) = uParticleSpread s
       \<and> debounce_ok (fire_timeouts now s)
       \<and> earliest_swipe s now \<le> earliest_swipe (fire_timeouts now s) now
       \<and> (\<not> swipeDetected (fire_timeouts now s) \<longrightarrow> earliest_swipe s now = now)"
proof (cases "swipeDetected s")
  case False
  with assms show ?thesis
    by (simp add: debounce_ok_def fire_timeouts_def earliest_swipe_def)
next
  case True
  with assms obtain d where "timeouts s = [d]"
    by (auto simp: debounce_ok_def length_Suc_conv)
  with True show ?thesis
    by (auto simp: debounce_ok_def fire_timeouts_def earliest_swipe_def)
qed

lemma deliver_step:
  assumes "debounce_ok s"
  shows "debounce_ok (deliver N (t, rnd, res) s)
       \<and> (shapeRequests (deliver N (t, rnd, res) s) = shapeRequests s
            \<and> earliest_swipe s t \<le> earliest_swipe (deliver N (t, rnd, res) s) t
          \<or> (\<exists>name. shapeRequests (deliver N (t, rnd, res) s) = shapeRequests s @ [name])
            \<and> earliest_swipe s t = t
            \<and> earliest_swipe (deliver N (t, rnd, res) s) t = t + 500)"
proof -
  define s1 where "s1 = fire_timeouts t s"
  define s2 where "s2 = state_of (onResults N t rnd res s1)"
  have d: "deliver N (t, rnd, res) s = s2"
    by (simp add: deliver_def s1_def s2_def)
  from fire_timeouts_effect [OF assms, of t]
  have f: "shapeRequests s1 = shapeRequests s" "debounce_ok s1"
    "earliest_swipe s t \<le> earliest_swipe s1 t"
    "\<not> swipeDetected s1 \<longrightarrow> earliest_swipe s t = t"
    unfolding s1_def by simp_all
  from onResults_debounce [of N t rnd res s1]
  consider (same) "swipeDetected s2 = swipeDetected s1" "timeouts s2 = timeouts s1"
      "shapeRequests s2 = shapeRequests s1"
    | (fired) name where "\<not> swipeDetected s1" "swipeDetected s2"
      "timeouts s2 = timeouts s1 @ [t + 500]" "shapeRequests s2 = shapeRequests s1 @ [name]"
    unfolding s2_def by blast
  then show ?thesis
  proof cases
    case same
    have e: "earliest_swipe s2 t = earliest_swipe s1 t"
      by (simp add: earliest_swipe_def same)
    have o: "debounce_ok s2"
      using f(2) by (simp add: debounce_ok_def same)
    from e o f(1,3) same(3) show ?thesis
      unfolding d by simp
  next
    case fired
    from fired(1) f(2) have "timeouts s1 = []" by (simp add: debounce_ok_def)
    with fired have e: "earliest_swipe s2 t = t + 500" and o: "debounce_ok s2"
      by (simp_all add: earliest_swipe_def debounce_ok_def)
    from fired(1) f(4) have "earliest_swipe s t = t" by simp
    with e o fired(4) f(1) show ?thesis
      unfolding d by simp
  qed
qed

lemma earliest_swipe_mono: "t0 \<le> t \<Longrightarrow> earliest_swipe s t0 \<le> earliest_swipe s t"
  by (auto simp: earliest_swipe_def max_def)

lemma earliest_swipe_ge: "t \<le> earliest_swipe s t"
  by (simp add: earliest_swipe_def)

lemma requests_spaced:
  assumes "debounce_ok s" "sorted (map fst ds)" "\<forall>d\<in>set ds. t0 \<le> fst d \<and> fst d < E"
  shows "\<exists>k. length (shapeRequests (deliver_all N ds s)) = length (shapeRequests s) + k
            \<and> (1 \<le> k \<longrightarrow> 500 * (real k - 1) < E - earliest_swipe s t0)"
  using assms
proof (induction ds arbitrary: s t0)
  case Nil
  then show ?case by (simp add: deliver_all_def)
next
  case (Cons d ds)
  obtain t rnd res where d: "d = (t, rnd, res)" by (cases d) auto
  define s' where "s' = deliver N (t, rnd, res) s"
  have run: "deliver_all N (d # ds) s = deliver_all N ds s'"
    by (simp add: deliver_all_def d s'_def)
  from Cons.prems(3) have t: "t0 \<le> t" "t < E" by (simp_all add: d)
  from Cons.prems(2) have later: "\<forall>e\<in>set ds. t \<le> fst e" and srt: "sorted (map fst ds)"
    by (auto simp: d)
  with Cons.prems(3) have rest: "\<forall>e\<in>set ds. t \<le> fst e \<and> fst e < E" by simp
  from deliver_step [OF Cons.prems(1), of N t rnd res]
  have ok: "debounce_ok s'"
    and step: "shapeRequests s' = shapeRequests s \<and> earliest_swipe s t \<le> earliest_swipe s' t
          \<or> (\<exists>name. shapeRequests s' = shapeRequests s @ [name])
            \<and> earliest_swipe s t = t \<and> earliest_swipe s' t = t + 500"
    unfolding s'_def by simp_all
  from Cons.IH [OF ok srt rest]
  obtain k where k: "length (shapeRequests (deliver_all N ds s')) = length (shapeRequests s') + k"
    "1 \<le> k \<longrightarrow> 500 * (real k - 1) < E - earliest_swipe s' t"
    by blast
  from earliest_swipe_mono [OF t(1), of s] have m: "earliest_swipe s t0 \<le> earliest_swipe s t" .
  from step show ?case
  proof
    assume a: "shapeRequests s' = shapeRequests s \<and> earliest_swipe s t \<le> earliest_swipe s' t"
    with k m have "length (shapeRequests (deliver_all N (d # ds) s)) = length (shapeRequests s) + k
       \<and> (1 \<le> k \<longrightarrow> 500 * (real k - 1) < E - earliest_swipe s t0)"
      unfolding run by auto
    then show ?thesis by blast
  next
    assume b: "(\<exists>name. shapeRequests s' = shapeRequests s @ [name])
            \<and> earliest_swipe s t = t \<and> earliest_swipe s' t = t + 500"
    then have len: "length (shapeRequests s') = length (shapeRequests s) + 1" by auto
    have "500 * (real (k + 1) - 1) < E - earliest_swipe s t0"
    proof (cases "1 \<le> k")
      case True
      with k(2) b have "500 * (real k - 1) < E - (t + 500)" by simp
      with m b show ?thesis by simp
    next
      case False
      then have "k = 0" by simp
      with m b t show ?thesis by simp
    qed
    with k(1) len have "length (shapeRequests (deliver_all N (d # ds) s))
          = length (shapeRequests s) + (k + 1)
       \<and> (1 \<le> k + 1 \<longrightarrow> 500 * (real (k + 1) - 1) < E - earliest_swipe s t0)"
      unfolding run by simp
    then show ?thesis by blast
  qed
qed

lemma fire_timeouts_spread: "uParticleSpread (fire_timeouts now s) = uParticleSpread s"
  by (simp add: fire_timeouts_def)

lemma deliver_spread:
  assumes "0.1 \<le> uParticleSpread s" "uParticleSpread s \<le> 5.0"
  shows "0.1 \<le> uParticleSpread (deliver N d s) \<and> uParticleSpread (deliver N d s) \<le> 5.0"
proof -
  obtain t rnd res where d: "d = (t, rnd, res)" by (cases d) auto
  from assms have "0.1 \<le> uParticleSpread (fire_timeouts t s)"
    "uParticleSpread (fire_timeouts t s) \<le> 5.0"
    by (simp_all add: fire_timeouts_spread)
  from onResults_spread [OF this] show ?thesis
    by (simp add: d deliver_def)
qed

lemma deliver_all_spread:
  assumes "0.1 \<le> uParticleSpread s" "uParticleSpread s \<le> 5.0"
  shows "0.1 \<le> uParticleSpread (deliver_all N ds s) \<and> uParticleSpread (deliver_all N ds s) \<le> 5.0"
  using assms
proof (induction ds arbitrary: s)
  case Nil
  then show ?case by (simp add: deliver_all_def)
next
  case (Cons d ds)
  from deliver_spread [OF Cons.prems, of N d] Cons.IH [of "deliver N d s"]
  show ?case by (simp add: deliver_all_def)
qed

lemma hand_at_nth:
  "length (hand_at x) = 21" "hand_at x ! 0 = Landmark x 0 0"
  "hand_at x ! 4 = Landmark (x + 1) 0 0" "hand_at x ! 8 = Landmark x 0 0"
  "hand_at x ! 9 = Landmark x 0 0" "hand_at x ! 12 = Landmark x 0 0"
  "hand_at x ! 16 = Landmark x 0 0" "hand_at x ! 20 = Landmark x 0 0"
  by (simp_all add: hand_at_def nth_append)

lemma hand_at_classes: "pinchDist (hand_at x) = 1" "\<not> fistDetection (hand_at x)"
  by (simp_all add: pinchDist_def fistDetection_def hand_at_nth)

lemma set_up_one_state:
  "set_up_one = initial_globals\<lparr>startPosition := [Vector3 0 1 0], endPosition := [Vector3 0 1 0]\<rparr>"
  using setup_one by (simp add: set_up_one_def)

lemma deliver_hand_at:
  "deliver N (t, rnd, Some [hand_at x]) s =
     state_of
       (case swipe N t rnd x
               ((fire_timeouts t s)\<lparr>uParticleSpread :=
                   max 0.1 (uParticleSpread (fire_timeouts t s) - 0.05)\<rparr>) of
          Threw e s2 \<Rightarrow> Threw e s2
        | Returned s2 \<Rightarrow>
            Returned (s2\<lparr>prevX := Some x, uAttractionPoint := Vector3 ((x - 0.5) * (- 30)) 15 0\<rparr>))"
  by (simp add: deliver_def onResults_def hand_at_nth hand_at_classes Let_def
        cong: outcome.case_cong)

lemma stream_run:
  "deliver_all 1 swipe_stream set_up_one =
     set_up_one\<lparr>uParticleSpread := 0.7, prevX := Some 0.8,
       uAttractionPoint := Vector3 (- 9) 15 0,
       startPosition := [Vector3 0 0 (- 10)], endPosition := [Vector3 0 0 (- 10)],
       targetTemplateName := ''spiral'', swipeDetected := True, timeouts := [2499],
       shapeRequests := [''spiral'', ''spiral'', ''spiral'']\<rparr>"
  by (simp add: deliver_all_def swipe_stream_def deliver_hand_at set_up_one_state
        initial_globals_def fire_timeouts_def swipe_def Let_def particleTemplates_def
        changeParticleTemplate_def spiral_def no_draws_def)

text \<open>
  Claim C5. A delivery without a hand, whether the landmark sequence is missing or
  empty, returns with \<open>prevX\<close> reset and every other field of the state as it was:
  the spread, the attraction point, the morph state and the position arrays. (The code
  keeps no colour: it has no state for it.)
\<close>

theorem no_hand_only_resets_prevX:
  "onResults N now rnd None s = Returned (s\<lparr>prevX := None\<rparr>)
   \<and> onResults N now rnd (Some []) s = Returned (s\<lparr>prevX := None\<rparr>)"
  by (simp add: onResults_def)

text \<open>
  Claim C3. From a spread within [0.1, 5], the spread is within [0.1, 5] after every
  delivery of every sequence of deliveries, whatever they hold and also when the handler
  throws. A delivery with a hand of 21 landmarks and no pinch sets it to the old value
  plus 0.05, cut off at 5, when the hand is classified open, and to the old value minus
  0.05, cut off at 0.1, when it is classified closed.
\<close>

theorem spread_stays_in_bounds:
  assumes "0.1 \<le> uParticleSpread s" and "uParticleSpread s \<le> 5.0"
  shows "(\<forall>k\<le>length ds.
            0.1 \<le> uParticleSpread (deliver_all N (take k ds) s)
            \<and> uParticleSpread (deliver_all N (take k ds) s) \<le> 5.0)
       \<and> (\<forall>now rnd hand others. 20 < length hand \<and> \<not> pinchDist hand < 0.05 \<longrightarrow>
            uParticleSpread (state_of (onResults N now rnd (Some (hand # others)) s))
              = (if fistDetection hand then min 5.0 (uParticleSpread s + 0.05)
                 else max 0.1 (uParticleSpread s - 0.05)))"
proof (intro conjI allI impI)
  fix k
  from deliver_all_spread [OF assms, of N "take k ds"]
  show "0.1 \<le> uParticleSpread (deliver_all N (take k ds) s)"
    and "uParticleSpread (deliver_all N (take k ds) s) \<le> 5.0"
    by simp_all
next
  fix now rnd hand others
  assume h: "20 < length hand \<and> \<not> pinchDist hand < 0.05"
  then have h1: "20 < length hand" and h2: "\<not> pinchDist hand < 0.05" by simp_all
  define s1 where "s1 = s\<lparr>uParticleSpread :=
                      (if fistDetection hand then min 5.0 (uParticleSpread s + 0.05)
                       else max 0.1 (uParticleSpread s - 0.05))\<rparr>"
  from onResults_hand [OF h1 h2, of N now rnd s others]
  obtain s2 where s2: "swipe N now rnd (lx (hand ! 8)) s1 = Returned s2"
    and r: "onResults N now rnd (Some (hand # others)) s =
                Returned (s2\<lparr>prevX := Some (lx (hand ! 8)),
                            uAttractionPoint :=
                              Vector3 ((lx (hand ! 9) - 0.5) * (- 30))
                                      ((ly (hand ! 9) - 0.5) * (- 30)) 0\<rparr>)"
    unfolding s1_def by blast
  from swipe_cases [of N now rnd "lx (hand ! 8)" s1] s2
  have "uParticleSpread s2 = uParticleSpread s1" by auto
  then show "uParticleSpread (state_of (onResults N now rnd (Some (hand # others)) s))
              = (if fistDetection hand then min 5.0 (uParticleSpread s + 0.05)
                 else max 0.1 (uParticleSpread s - 0.05))"
    by (simp add: r s1_def)
qed

text \<open>
  The theorem at the one-particle engine after set-up (spread 1): six deliveries of a
  closed hand bring the spread to 0.7, and one brings it to 0.95.
\<close>

theorem spread_stays_in_bounds_witness:
  "0.1 \<le> uParticleSpread set_up_one \<and> uParticleSpread set_up_one \<le> 5.0
   \<and> uParticleSpread (deliver_all 1 (take 6 swipe_stream) set_up_one) = 0.7
   \<and> 0.1 \<le> uParticleSpread (deliver_all 1 (take 6 swipe_stream) set_up_one)
   \<and> uParticleSpread (deliver_all 1 (take 6 swipe_stream) set_up_one) \<le> 5.0
   \<and> 20 < length (hand_at 0.2) \<and> \<not> pinchDist (hand_at 0.2) < 0.05
   \<and> \<not> fistDetection (hand_at 0.2)
   \<and> uParticleSpread (state_of (onResults 1 0 no_draws (Some [hand_at 0.2]) set_up_one)) = 0.95"
proof -
  have b: "0.1 \<le> uParticleSpread set_up_one" "uParticleSpread set_up_one \<le> 5.0"
    by (simp_all add: set_up_one_state initial_globals_def)
  have six: "take 6 swipe_stream = swipe_stream" "6 \<le> length swipe_stream"
    by (simp_all add: swipe_stream_def)
  have v: "uParticleSpread (deliver_all 1 (take 6 swipe_stream) set_up_one) = 0.7"
    using stream_run by (simp add: six)
  have h: "20 < length (hand_at 0.2)" "\<not> pinchDist (hand_at 0.2) < 0.05"
    "\<not> fistDetection (hand_at 0.2)"
    by (simp_all add: hand_at_nth hand_at_classes)
  note inst = spread_stays_in_bounds [OF b, of swipe_stream 1]
  from inst six(2) have r: "0.1 \<le> uParticleSpread (deliver_all 1 (take 6 swipe_stream) set_up_one)"
    "uParticleSpread (deliver_all 1 (take 6 swipe_stream) set_up_one) \<le> 5.0"
    by blast+
  from inst h have "uParticleSpread (state_of (onResults 1 0 no_draws (Some [hand_at 0.2]) set_up_one))
      = max 0.1 (uParticleSpread set_up_one - 0.05)"
    by (elim conjE allE [of _ "0::real"] allE [of _ no_draws] allE [of _ "hand_at 0.2"]
          allE [of _ "[] :: landmark list list"]) simp
  then have w: "uParticleSpread (state_of (onResults 1 0 no_draws (Some [hand_at 0.2]) set_up_one)) = 0.95"
    by (simp add: set_up_one_state initial_globals_def)
  from b v r h w show ?thesis by (intro conjI)
qed

text \<open>
  Claim C9. The debounce is by the clock: the flag set by a swipe is cleared by a timeout
  500 ms later and by nothing else. So, from a state in which the flag is up exactly
  while its timeout is pending, deliveries handled in time order within a window of two
  seconds, \<open>T \<le> t < T + 2000\<close>, issue at most 4 = 2000 / 500 shape-change requests,
  however many deliveries there are and whatever they hold; and while the flag is up and
  its deadline has not come, a delivery issues no request and leaves the flag up.
\<close>

theorem swipe_requests_rate_limited:
  assumes "debounce_ok s" and "sorted (map fst ds)"
      and "\<forall>d\<in>set ds. T \<le> fst d \<and> fst d < T + 2000"
  shows "length (shapeRequests (deliver_all N ds s)) \<le> length (shapeRequests s) + 4
       \<and> (\<forall>now rnd res. swipeDetected s \<and> now < hd (timeouts s) \<longrightarrow>
            shapeRequests (deliver N (now, rnd, res) s) = shapeRequests s
            \<and> swipeDetected (deliver N (now, rnd, res) s))"
proof -
  from requests_spaced [OF assms, of N]
  obtain k where k: "length (shapeRequests (deliver_all N ds s)) = length (shapeRequests s) + k"
    "1 \<le> k \<longrightarrow> 500 * (real k - 1) < T + 2000 - earliest_swipe s T"
    by blast
  have "k \<le> 4"
  proof (rule ccontr)
    assume "\<not> k \<le> 4"
    then have "5 \<le> k" by simp
    then have "2000 \<le> 500 * (real k - 1)" by simp
    with k(2) \<open>5 \<le> k\<close> earliest_swipe_ge [of T s] show False by simp
  qed
  with k(1) have bound: "length (shapeRequests (deliver_all N ds s)) \<le> length (shapeRequests s) + 4"
    by simp
  have ignored: "shapeRequests (deliver N (now, rnd, res) s) = shapeRequests s
            \<and> swipeDetected (deliver N (now, rnd, res) s)"
    if a: "swipeDetected s \<and> now < hd (timeouts s)" for now rnd res
  proof -
  from a assms(1) obtain d where d: "timeouts s = [d]"
    by (auto simp: debounce_ok_def length_Suc_conv)
  with a have f: "fire_timeouts now s = s"
    by (simp add: fire_timeouts_def)
  from onResults_debounce [of N now rnd res s] a
  have "swipeDetected (state_of (onResults N now rnd res s))
        \<and> shapeRequests (state_of (onResults N now rnd res s)) = shapeRequests s"
    by auto
  then show ?thesis
    by (simp add: deliver_def f)
  qed
  from bound ignored show ?thesis by blast
qed

text \<open>
  The theorem at the one-particle engine after set-up, for six deliveries within two
  seconds whose fingertip jumps by 0.6 each time: three requests are issued, and a
  delivery before the last deadline issues none.
\<close>

theorem swipe_requests_rate_limited_witness:
  "debounce_ok set_up_one
   \<and> sorted (map fst swipe_stream)
   \<and> map fst swipe_stream = [0, 400, 800, 1200, 1600, 1999]
   \<and> shapeRequests set_up_one = []
   \<and> shapeRequests (deliver_all 1 swipe_stream set_up_one) = [''spiral'', ''spiral'', ''spiral'']
   \<and> length (shapeRequests (deliver_all 1 swipe_stream set_up_one))
       \<le> length (shapeRequests set_up_one) + 4
   \<and> swipeDetected (deliver_all 1 swipe_stream set_up_one)
   \<and> hd (timeouts (deliver_all 1 swipe_stream set_up_one)) = 2499
   \<and> shapeRequests (deliver 1 (2100, no_draws, Some [hand_at 0.2])
                       (deliver_all 1 swipe_stream set_up_one))
       = [''spiral'', ''spiral'', ''spiral'']"
proof -
  have ok: "debounce_ok set_up_one"
    by (simp add: debounce_ok_def set_up_one_state initial_globals_def)
  have times: "map fst swipe_stream = [0, 400, 800, 1200, 1600, 1999]"
    by (simp add: swipe_stream_def)
  have srt: "sorted (map fst swipe_stream)"
    by (simp add: times)
  have window: "\<forall>d\<in>set swipe_stream. 0 \<le> fst d \<and> fst d < 0 + 2000"
    by (simp add: swipe_stream_def)
  have none: "shapeRequests set_up_one = []"
    by (simp add: set_up_one_state initial_globals_def)
  have after: "shapeRequests (deliver_all 1 swipe_stream set_up_one)
                 = [''spiral'', ''spiral'', ''spiral'']"
    "swipeDetected (deliver_all 1 swipe_stream set_up_one)"
    "hd (timeouts (deliver_all 1 swipe_stream set_up_one)) = 2499"
    using stream_run by simp_all
  from swipe_requests_rate_limited [OF ok srt window, of 1]
  have bound: "length (shapeRequests (deliver_all 1 swipe_stream set_up_one))
       \<le> length (shapeRequests set_up_one) + 4"
    by simp
  have ok': "debounce_ok (deliver_all 1 swipe_stream set_up_one)"
    using stream_run by (simp add: debounce_ok_def)
  have e: "sorted (map fst ([] :: delivery list))"
    "\<forall>d\<in>set ([] :: delivery list). 0 \<le> fst d \<and> fst d < 0 + 2000"
    by simp_all
  from swipe_requests_rate_limited [OF ok' e, of 1] after(2,3)
  have "shapeRequests (deliver 1 (2100, no_draws, Some [hand_at 0.2])
                       (deliver_all 1 swipe_stream set_up_one))
          = shapeRequests (deliver_all 1 swipe_stream set_up_one)"
    by simp
  with after(1) have ignored: "shapeRequests (deliver 1 (2100, no_draws, Some [hand_at 0.2])
                       (deliver_all 1 swipe_stream set_up_one))
       = [''spiral'', ''spiral'', ''spiral'']"
    by simp
  from ok srt times none after bound ignored show ?thesis
    by (intro conjI)
qed

section \<open>The recording session\<close>

lemma recorded_three_state:
  "recorded_three =
     \<lparr>recordingStatus = ''uploading'', recordedChunks = [[1, 2, 3], [5, 6], [7]],
      mediaRecorder = True, videoStream = True, renderer = True,
      statusText = ''Recording: Stopping & Uploading...'', indicatorDisplay = ''none'',
      uploadRequests = []\<rparr>"
  by (simp add: recorded_three_def session_with_camera_def keydown_def startRecording_def
        stopRecording_def ondataavailable_def)

lemma recorded_nothing_state:
  "recorded_nothing =
     \<lparr>recordingStatus = ''uploading'', recordedChunks = [],
      mediaRecorder = True, videoStream = True, renderer = True,
      statusText = ''Recording: Stopping & Uploading...'', indicatorDisplay = ''none'',
      uploadRequests = []\<rparr>"
  by (simp add: recorded_nothing_def session_with_camera_def keydown_def startRecording_def
        stopRecording_def)

lemma failed_upload_state:
  "failed_upload =
     \<lparr>recordingStatus = ''error'', recordedChunks = [],
      mediaRecorder = True, videoStream = True, renderer = True,
      statusText = ''Upload Failed: Failed to fetch...'', indicatorDisplay = ''none'',
      uploadRequests = [(''session-2024-01-01T10-20-30-456Z.webm'', [1, 2, 3, 5, 6, 7])]\<rparr>"
  by (simp add: failed_upload_def recorded_three_state uploadRecording_def Let_def)

text \<open>
  Claim C7. When a session that holds at least one chunk is finalized, the chunk buffer
  is empty afterwards whatever the collaborator answers. An answer with the \<open>ok\<close> flag
  and a JSON body ends in the status idle. Every failure ends in the status error with
  a status text that holds the first 30 characters of the reason: a rejected fetch
  (transport), a body that cannot be read, and a response without the \<open>ok\<close> flag
  (rejection by the relay), whose reason is its message or, without one, the text
  ``Unknown upload error''. The status is idle or error in every case, and in the
  error case the status text is not empty.
\<close>

theorem upload_completion_terminal_state:
  assumes "recordedChunks r \<noteq> []"
  shows "recordedChunks (uploadRecording isoTime answer r) = []
       \<and> (answer = Response True (Json message) \<longrightarrow>
            recordingStatus (uploadRecording isoTime answer r) = ''idle'')
       \<and> (answer = Rejected reason \<or> answer = Response ok (NotJson reason)
            \<or> answer = Response ok (JsonNull reason) \<longrightarrow>
            recordingStatus (uploadRecording isoTime answer r) = ''error''
            \<and> statusText (uploadRecording isoTime answer r)
                = ''Upload Failed: '' @ take 30 reason @ ''...'')
       \<and> (answer = Response False (Json message) \<longrightarrow>
            recordingStatus (uploadRecording isoTime answer r) = ''error''
            \<and> statusText (uploadRecording isoTime answer r)
                = ''Upload Failed: ''
                  @ take 30 (case message of None \<Rightarrow> ''Unknown upload error''
                             | Some m \<Rightarrow> if m = [] then ''Unknown upload error'' else m)
                  @ ''...'')
       \<and> (recordingStatus (uploadRecording isoTime answer r) = ''idle''
            \<or> recordingStatus (uploadRecording isoTime answer r) = ''error''
               \<and> statusText (uploadRecording isoTime answer r) \<noteq> [])"
proof -
  have "upload_try answer = None \<or> (\<exists>m. upload_try answer = Some m)" by auto
  then have last: "recordingStatus (uploadRecording isoTime answer r) = ''idle''
            \<or> recordingStatus (uploadRecording isoTime answer r) = ''error''
               \<and> statusText (uploadRecording isoTime answer r) \<noteq> []"
    using assms by (auto simp: uploadRecording_def Let_def)
  have first: "recordedChunks (uploadRecording isoTime answer r) = []"
    using assms by (simp add: uploadRecording_def Let_def split: option.split)
  from assms first last show ?thesis
    by (auto simp: uploadRecording_def Let_def)
qed

text \<open>
  The theorem at the session stopped after three chunks: the relay's answer to a good
  upload, and its answer to a failed one.
\<close>

theorem upload_completion_terminal_state_witness:
  "recordedChunks recorded_three \<noteq> []
   \<and> recordingStatus
        (uploadRecording ''2024-01-01T10:20:30.456Z''
           (Response True (Json (Some ''Video successfully uploaded to Telegram.'')))
           recorded_three) = ''idle''
   \<and> recordedChunks
        (uploadRecording ''2024-01-01T10:20:30.456Z''
           (Response True (Json (Some ''Video successfully uploaded to Telegram.'')))
           recorded_three) = []
   \<and> recordingStatus
        (uploadRecording ''2024-01-01T10:20:30.456Z''
           (Response False (Json (Some ''Failed to upload video to Telegram.'')))
           recorded_three) = ''error''
   \<and> recordedChunks
        (uploadRecording ''2024-01-01T10:20:30.456Z''
           (Response False (Json (Some ''Failed to upload video to Telegram.'')))
           recorded_three) = []
   \<and> statusText
        (uploadRecording ''2024-01-01T10:20:30.456Z''
           (Response False (Json (Some ''Failed to upload video to Telegram.'')))
           recorded_three) = ''Upload Failed: Failed to upload video to Tele...''"
proof -
  have ne: "recordedChunks recorded_three \<noteq> []"
    by (simp add: recorded_three_state)
  from upload_completion_terminal_state [OF ne, of "''2024-01-01T10:20:30.456Z''"
      "Response True (Json (Some ''Video successfully uploaded to Telegram.''))"
      "Some ''Video successfully uploaded to Telegram.''"]
  have ok: "recordingStatus
        (uploadRecording ''2024-01-01T10:20:30.456Z''
           (Response True (Json (Some ''Video successfully uploaded to Telegram.'')))
           recorded_three) = ''idle''"
    "recordedChunks
        (uploadRecording ''2024-01-01T10:20:30.456Z''
           (Response True (Json (Some ''Video successfully uploaded to Telegram.'')))
           recorded_three) = []"
    by simp_all
  from upload_completion_terminal_state [OF ne, of "''2024-01-01T10:20:30.456Z''"
      "Response False (Json (Some ''Failed to upload video to Telegram.''))"
      "Some ''Failed to upload video to Telegram.''"]
  have bad: "recordingStatus
        (uploadRecording ''2024-01-01T10:20:30.456Z''
           (Response False (Json (Some ''Failed to upload video to Telegram.'')))
           recorded_three) = ''error''"
    "recordedChunks
        (uploadRecording ''2024-01-01T10:20:30.456Z''
           (Response False (Json (Some ''Failed to upload video to Telegram.'')))
           recorded_three) = []"
    "statusText
        (uploadRecording ''2024-01-01T10:20:30.456Z''
           (Response False (Json (Some ''Failed to upload video to Telegram.'')))
           recorded_three) = ''Upload Failed: Failed to upload video to Tele...''"
    by simp_all
  from ne ok bad show ?thesis by (intro conjI)
qed

text \<open>
  Claim C10. When a session without chunks is finalized, \<open>uploadRecording\<close> only sets
  the status to idle and the status text: no fetch is issued, and the chunk buffer is
  still empty.
\<close>

theorem empty_session_skips_upload:
  assumes "recordedChunks r = []"
  shows "uploadRecording isoTime answer r
           = r\<lparr>recordingStatus := ''idle'', statusText := ''Recording: Idle''\<rparr>
       \<and> uploadRequests (uploadRecording isoTime answer r) = uploadRequests r
       \<and> recordingStatus (uploadRecording isoTime answer r) = ''idle''
       \<and> recordedChunks (uploadRecording isoTime answer r) = []"
  using assms by (simp add: uploadRecording_def)

text \<open>The theorem at a session started and stopped before any chunk arrived.\<close>

theorem empty_session_skips_upload_witness:
  "recordedChunks recorded_nothing = []
   \<and> uploadRequests
        (uploadRecording ''2024-01-01T10:20:30.456Z'' (Rejected ''Failed to fetch'')
           recorded_nothing) = []
   \<and> recordingStatus
        (uploadRecording ''2024-01-01T10:20:30.456Z'' (Rejected ''Failed to fetch'')
           recorded_nothing) = ''idle''
   \<and> recordedChunks
        (uploadRecording ''2024-01-01T10:20:30.456Z'' (Rejected ''Failed to fetch'')
           recorded_nothing) = []"
proof -
  have e: "recordedChunks recorded_nothing = []"
    by (simp add: recorded_nothing_state)
  have u: "uploadRequests recorded_nothing = []"
    by (simp add: recorded_nothing_state)
  from empty_session_skips_upload [OF e, of "''2024-01-01T10:20:30.456Z''" "Rejected ''Failed to fetch''"] e u
  show ?thesis by simp
qed

text \<open>
  Claim C8, as the code has it. The key toggle tries to start a recording exactly in the
  status idle: with a video stream, a renderer and a working MediaRecorder the session
  is then recording; with a video stream but no renderer yet the listener throws a
  TypeError and leaves the session as it is; without a video stream the session stays
  idle and only the status text changes. The toggle stops a recording exactly in the
  status recording (the session is then uploading). In every other status, error
  included, the toggle leaves the whole session as it is, status text included: nothing
  is reported, and the key never leaves the status error. \<open>stopRecording\<close> itself
  changes nothing unless the status is recording, and \<open>startRecording\<close> itself checks
  no status at all.
\<close>

theorem key_toggle_idle_and_recording_only:
  assumes "key = ''r'' \<or> key = ''R''"
  shows "(recordingStatus r = ''idle'' \<and> videoStream r \<and> renderer r \<longrightarrow>
            (\<exists>r'. keydown Starts key r = Returned r' \<and> recordingStatus r' = ''recording''))
       \<and> (recordingStatus r = ''idle'' \<and> videoStream r \<and> \<not> renderer r \<longrightarrow>
            keydown mr key r = Threw TypeError r)
       \<and> (recordingStatus r = ''idle'' \<and> \<not> videoStream r \<longrightarrow>
            keydown mr key r = Returned (r\<lparr>statusText := ''Recording: Failed (No Stream)''\<rparr>))
       \<and> (recordingStatus r = ''recording'' \<and> mediaRecorder r \<longrightarrow>
            (\<exists>r'. keydown mr key r = Returned r' \<and> recordingStatus r' = ''uploading''))
       \<and> (recordingStatus r \<noteq> ''idle'' \<and> recordingStatus r \<noteq> ''recording'' \<longrightarrow>
            keydown mr key r = Returned r)
       \<and> (recordingStatus r \<noteq> ''recording'' \<longrightarrow> stopRecording r = r)
       \<and> (videoStream r \<and> renderer r \<longrightarrow>
            (\<exists>r'. startRecording Starts r = Returned r' \<and> recordingStatus r' = ''recording''))"
  using assms by (auto simp: keydown_def startRecording_def stopRecording_def)

text \<open>
  The theorem at the session after set-up: the key starts it, the key stops it, the key
  does nothing while it uploads, and stopping an idle session does nothing; and at the
  session between camera and renderer, where the key throws.
\<close>

theorem key_toggle_idle_and_recording_only_witness:
  "recordingStatus session_with_camera = ''idle'' \<and> videoStream session_with_camera
   \<and> renderer session_with_camera
   \<and> recordingStatus (state_of (keydown Starts ''r'' session_with_camera)) = ''recording''
   \<and> mediaRecorder (state_of (keydown Starts ''r'' session_with_camera))
   \<and> recordingStatus
        (state_of (keydown Starts ''R'' (state_of (keydown Starts ''r'' session_with_camera))))
       = ''uploading''
   \<and> recordingStatus recorded_three = ''uploading''
   \<and> keydown Starts ''r'' recorded_three = Returned recorded_three
   \<and> stopRecording session_with_camera = session_with_camera
   \<and> recordingStatus camera_before_renderer = ''idle'' \<and> videoStream camera_before_renderer
   \<and> \<not> renderer camera_before_renderer
   \<and> keydown Starts ''r'' camera_before_renderer = Threw TypeError camera_before_renderer"
proof -
  have k: "''r'' = ''r'' \<or> ''r'' = ''R''" "''R'' = ''r'' \<or> ''R'' = ''R''" by simp_all
  have i: "recordingStatus session_with_camera = ''idle''" "videoStream session_with_camera"
    "renderer session_with_camera"
    by (simp_all add: session_with_camera_def)
  from key_toggle_idle_and_recording_only [OF k(1), of session_with_camera] i
  have a: "recordingStatus (state_of (keydown Starts ''r'' session_with_camera)) = ''recording''"
    and d: "stopRecording session_with_camera = session_with_camera"
    by auto
  have m: "mediaRecorder (state_of (keydown Starts ''r'' session_with_camera))"
    by (simp add: keydown_def startRecording_def session_with_camera_def)
  from key_toggle_idle_and_recording_only
         [OF k(2), of "state_of (keydown Starts ''r'' session_with_camera)" Starts] a m
  have b: "recordingStatus
        (state_of (keydown Starts ''R'' (state_of (keydown Starts ''r'' session_with_camera))))
       = ''uploading''"
    by auto
  have u: "recordingStatus recorded_three = ''uploading''"
    by (simp add: recorded_three_state)
  from key_toggle_idle_and_recording_only [OF k(1), of recorded_three Starts] u
  have c: "keydown Starts ''r'' recorded_three = Returned recorded_three"
    by simp
  have j: "recordingStatus camera_before_renderer = ''idle''" "videoStream camera_before_renderer"
    "\<not> renderer camera_before_renderer"
    by (simp_all add: camera_before_renderer_def)
  from key_toggle_idle_and_recording_only [OF k(1), of camera_before_renderer Starts] j
  have t: "keydown Starts ''r'' camera_before_renderer = Threw TypeError camera_before_renderer"
    by simp
  from i a m b u c d j t show ?thesis by (intro conjI)
qed

text \<open>
  Claim C8 as stated fails after a failed upload: in the status error the key does not
  start a recording, although the video stream and the renderer are there.
\<close>

theorem error_is_sticky_counterexample:
  "recordingStatus failed_upload = ''error'' \<and> videoStream failed_upload
   \<and> renderer failed_upload
   \<and> keydown Starts ''r'' failed_upload = Returned failed_upload
   \<and> recordingStatus (state_of (keydown Starts ''r'' failed_upload)) \<noteq> ''recording''"
  by (simp add: failed_upload_state keydown_def)

end
